theory Spec2Isabelle
  imports Main "HOL-Library.Word" "HOL-Library.Multiset"
begin

unbundle bit_operations_syntax

section \<open>Go values used by the transparency log verifier\<close>

text \<open>
  The model follows \<^verbatim>\<open>pkg/verifier/tlog.go\<close>. A Go \<^verbatim>\<open>error\<close> is an interface
  value: \<^verbatim>\<open>errors.New\<close> and \<^verbatim>\<open>fmt.Errorf\<close> (without \<^verbatim>\<open>%w\<close>) build a value that
  carries a message and nothing else; an error of any other dynamic type, as a
  collaborator may return, is an opaque number here.
\<close>

type_synonym byte = "8 word"

datatype error = ErrorString string | OtherError nat

text \<open>
  What a call yields: a value, a non-nil error, or a run-time panic (a nil pointer
  dereference).
\<close>

datatype 'a res = Val 'a | Err error | Panicked

text \<open>Opaque handles of the libraries the verifier calls.\<close>

type_synonym Certificate = string
type_synonym Time = int
type_synonym Rekor = nat
type_synonym PublicKey = string
type_synonym Verifier = string
type_synonym LogEntryAnon = string

text \<open>
  \<^verbatim>\<open>tlog.Entry\<close> through the accessors that \<^verbatim>\<open>Verify\<close> calls. \<^verbatim>\<open>LogKeyID\<close> and
  \<^verbatim>\<open>LogIndex\<close> return pointers, which the source dereferences: \<open>None\<close> is nil.
  The log index (an \<^verbatim>\<open>int64\<close>) and the threshold (an \<^verbatim>\<open>int\<close>) are only
  compared and printed, never computed with, so they are integers without wrap-around.
\<close>

record Entry =
  LogKeyID :: "string option"
  LogIndex :: "int option"
  Signature :: "byte list"
  Certificate :: Certificate
  IntegratedTime :: Time

record SignatureContent =
  GetSignature :: "byte list"

record VerificationContent =
  CompareKey :: "Certificate \<Rightarrow> bool"
  ValidAtTime :: "Time \<Rightarrow> bool"

text \<open>
  \<^verbatim>\<open>SignedEntity\<close>: three methods without arguments, each returning a value or an error.
\<close>

record SignedEntity =
  TlogEntries :: "error + Entry list"
  SignatureContent :: "error + SignatureContent"
  VerificationContent :: "error + VerificationContent"

record TlogVerifier =
  BaseURL :: string

text \<open>
  The maps hold pointers (\<^verbatim>\<open>map[string]*root.TlogVerifier\<close>): a key can be absent
  (\<open>None\<close>), or present with a nil pointer (\<open>Some None\<close>).
\<close>

type_synonym TlogVerifiers = "string \<Rightarrow> TlogVerifier option option"

record TrustedRoot =
  TlogVerifiers :: TlogVerifiers

record ArtifactTransparencyLogVerifier =
  trustedRoot :: TrustedRoot
  threshold :: int
  online :: bool
  tlogVerifiers :: TlogVerifiers

text \<open>
  The functions of other packages that the file calls. A \<^verbatim>\<open>models.LogEntry\<close> is a Go
  map from UUID to \<^verbatim>\<open>LogEntryAnon\<close>; it is given as the list of its pairs in the order
  in which \<^verbatim>\<open>range\<close> visits them.
\<close>

type_synonym LogEntry = "(string \<times> LogEntryAnon) list"

record World =
  ValidateEntry :: "Entry \<Rightarrow> error option"
  VerifySET :: "Entry \<Rightarrow> TlogVerifiers \<Rightarrow> error option"
  GetRekorClient :: "string \<Rightarrow> error + Rekor"
  GetPublicKey :: "Rekor \<Rightarrow> error + string"
  pem_Decode :: "string \<Rightarrow> byte list option"
  ParsePKIXPublicKey :: "byte list \<Rightarrow> error + PublicKey"
  LoadVerifier :: "PublicKey \<Rightarrow> error + Verifier"
  SearchLogQuery :: "Rekor \<Rightarrow> int option list \<Rightarrow> error + LogEntry list"
  VerifyLogEntry :: "LogEntryAnon \<Rightarrow> Verifier \<Rightarrow> error option"

section \<open>Calls and their trace\<close>

text \<open>
  Every call that leaves the file is recorded, in order, so that "this was never
  called" is a statement about the trace.
\<close>

datatype event =
    EvTlogEntries
  | EvSignatureContent
  | EvVerificationContent
  | EvValidateEntry Entry
  | EvVerifySET Entry
  | EvGetRekorClient string
  | EvGetPublicKey Rekor
  | EvPemDecode string
  | EvParsePKIXPublicKey "byte list"
  | EvLoadVerifier PublicKey
  | EvSearchLogQuery Rekor "int option list"
  | EvVerifyLogEntry LogEntryAnon Verifier
  | EvCompareKey Certificate
  | EvValidAtTime Time

type_synonym 'a io = "event list \<times> 'a res"

definition trace :: "'a io \<Rightarrow> event list" where
  "trace m = fst m"

definition result :: "'a io \<Rightarrow> 'a res" where
  "result m = snd m"

definition ret :: "'a \<Rightarrow> 'a io" where
  "ret a = ([], Val a)"

definition fail :: "error \<Rightarrow> 'a io" where
  "fail e = ([], Err e)"

definition panic :: "'a io" where
  "panic = ([], Panicked)"

text \<open>A call that returns \<^verbatim>\<open>(value, err)\<close>, one that returns \<^verbatim>\<open>err\<close>, one that cannot fail.\<close>

definition call :: "event \<Rightarrow> error + 'a \<Rightarrow> 'a io" where
  "call ev r = ([ev], case r of Inl e \<Rightarrow> Err e | Inr a \<Rightarrow> Val a)"

definition callErr :: "event \<Rightarrow> error option \<Rightarrow> unit io" where
  "callErr ev r = ([ev], case r of Some e \<Rightarrow> Err e | None \<Rightarrow> Val ())"

definition callPure :: "event \<Rightarrow> 'a \<Rightarrow> 'a io" where
  "callPure ev a = ([ev], Val a)"

text \<open>Sequencing: an error or a panic of the first part ends the function.\<close>

definition andThen :: "'a io \<Rightarrow> ('a \<Rightarrow> 'b io) \<Rightarrow> 'b io" where
  "andThen m f =
     (case snd m of
        Val a \<Rightarrow> (fst m @ fst (f a), snd (f a))
      | Err e \<Rightarrow> (fst m, Err e)
      | Panicked \<Rightarrow> (fst m, Panicked))"

section \<open>Formatting\<close>

text \<open>\<^verbatim>\<open>%d\<close> of \<^verbatim>\<open>fmt\<close>: decimal digits, with a minus sign for a negative number.\<close>

definition digit :: "nat \<Rightarrow> char" where
  "digit n = ''0123456789'' ! n"

function show_nat :: "nat \<Rightarrow> string" where
  "show_nat n = (if n < 10 then [digit n] else show_nat (n div 10) @ [digit (n mod 10)])"
  by pat_completeness auto
termination
  by (relation "measure (\<lambda>n. n)") auto

declare show_nat.simps [simp del]

definition show_int :: "int \<Rightarrow> string" where
  "show_int i = (if i < 0 then CHR ''-'' # show_nat (nat (- i)) else show_nat (nat i))"

text \<open>\<^verbatim>\<open>hex.EncodeToString([]byte(s))\<close>: two lower-case digits for each byte.\<close>

definition hextable :: string where
  "hextable = ''0123456789abcdef''"

definition bytes_of :: "string \<Rightarrow> byte list" where
  "bytes_of s = map of_char s"

fun hex_EncodeToString :: "byte list \<Rightarrow> string" where
  "hex_EncodeToString [] = []"
| "hex_EncodeToString (v # src) =
     hextable ! unat (drop_bit 4 v) # hextable ! unat (v AND 0x0f) # hex_EncodeToString src"

section \<open>The verifier\<close>

definition NewArtifactTransparencyLogVerifier ::
  "TrustedRoot \<Rightarrow> int \<Rightarrow> bool \<Rightarrow> TlogVerifiers \<Rightarrow> ArtifactTransparencyLogVerifier" where
  "NewArtifactTransparencyLogVerifier tr t onl vs =
     \<lparr>trustedRoot = tr, threshold = t, online = onl, tlogVerifiers = vs\<rparr>"

definition getRekorClient :: "World \<Rightarrow> string \<Rightarrow> (Rekor \<times> Verifier) io" where
  "getRekorClient w baseURL =
     andThen (call (EvGetRekorClient baseURL) (GetRekorClient w baseURL)) (\<lambda>client.
     andThen (call (EvGetPublicKey client) (GetPublicKey w client)) (\<lambda>keyResp.
     andThen (callPure (EvPemDecode keyResp) (pem_Decode w keyResp)) (\<lambda>block.
       case block of
         None \<Rightarrow> fail (ErrorString ''failed to decode public key of server'')
       | Some blockBytes \<Rightarrow>
           andThen (call (EvParsePKIXPublicKey blockBytes) (ParsePKIXPublicKey w blockBytes)) (\<lambda>pub.
           andThen (call (EvLoadVerifier pub) (LoadVerifier w pub)) (\<lambda>verifier.
             ret (client, verifier))))))"

text \<open>The loop over the entries of the one record that the log returned (lines 96 to 102).\<close>

fun verifyLogEntries :: "World \<Rightarrow> Verifier \<Rightarrow> LogEntry \<Rightarrow> unit io" where
  "verifyLogEntries w verifier [] = ret ()"
| "verifyLogEntries w verifier (kv # rest) =
     andThen (callErr (EvVerifyLogEntry (snd kv) verifier) (VerifyLogEntry w (snd kv) verifier))
       (\<lambda>_. verifyLogEntries w verifier rest)"

text \<open>The online branch of the loop body (lines 64 to 102).\<close>

definition onlineCheck :: "World \<Rightarrow> ArtifactTransparencyLogVerifier \<Rightarrow> Entry \<Rightarrow> unit io" where
  "onlineCheck w p entry =
     (case LogKeyID entry of
        None \<Rightarrow> panic
      | Some keyID \<Rightarrow>
          let hex64Key = hex_EncodeToString (bytes_of keyID) in
          (case tlogVerifiers p hex64Key of
             None \<Rightarrow> fail (ErrorString (''unable to find tlog information for key '' @ hex64Key))
           | Some None \<Rightarrow> panic
           | Some (Some tlogVerifier) \<Rightarrow>
               andThen (getRekorClient w (BaseURL tlogVerifier)) (\<lambda>(client, verifier).
                 let logIndex = LogIndex entry in
                 andThen (call (EvSearchLogQuery client [logIndex])
                            (SearchLogQuery w client [logIndex])) (\<lambda>payload.
                   if length payload = 0 then
                     (case logIndex of
                        None \<Rightarrow> panic
                      | Some i \<Rightarrow> fail (ErrorString (''unable to locate log entry '' @ show_int i)))
                   else if length payload > 1 then
                     fail (ErrorString ''too many log entries returned'')
                   else verifyLogEntries w verifier (payload ! 0)))))"

text \<open>The check that depends on the mode of the verifier (lines 58 to 103).\<close>

definition strategyCheck :: "World \<Rightarrow> ArtifactTransparencyLogVerifier \<Rightarrow> Entry \<Rightarrow> unit io" where
  "strategyCheck w p entry =
     (if \<not> online p then
        callErr (EvVerifySET entry) (VerifySET w entry (TlogVerifiers (trustedRoot p)))
      else onlineCheck w p entry)"

text \<open>The comparisons with the entity's own signature and certificate (lines 105 to 120).\<close>

definition crossChecks :: "byte list \<Rightarrow> VerificationContent \<Rightarrow> Entry \<Rightarrow> unit io" where
  "crossChecks entitySignature verificationContent entry =
     (if Signature entry \<noteq> entitySignature then
        fail (ErrorString ''transparency log signature does not match'')
      else
        andThen (callPure (EvCompareKey (Certificate entry))
                   (CompareKey verificationContent (Certificate entry))) (\<lambda>sameKey.
          if \<not> sameKey then
            fail (ErrorString ''transparency log certificate does not match'')
          else
            andThen (callPure (EvValidAtTime (IntegratedTime entry))
                       (ValidAtTime verificationContent (IntegratedTime entry))) (\<lambda>valid.
              if \<not> valid then
                fail (ErrorString ''Integrated time outside certificate validity'')
              else ret ())))"

text \<open>The body of the loop over the entries (lines 53 to 120).\<close>

definition verifyEntry ::
  "World \<Rightarrow> ArtifactTransparencyLogVerifier \<Rightarrow> byte list \<Rightarrow> VerificationContent \<Rightarrow> Entry \<Rightarrow> unit io" where
  "verifyEntry w p entitySignature verificationContent entry =
     andThen (callErr (EvValidateEntry entry) (ValidateEntry w entry)) (\<lambda>_.
     andThen (strategyCheck w p entry) (\<lambda>_.
       crossChecks entitySignature verificationContent entry))"

fun verifyEntries ::
  "World \<Rightarrow> ArtifactTransparencyLogVerifier \<Rightarrow> byte list \<Rightarrow> VerificationContent \<Rightarrow> Entry list \<Rightarrow> unit io" where
  "verifyEntries w p entitySignature verificationContent [] = ret ()"
| "verifyEntries w p entitySignature verificationContent (entry # rest) =
     andThen (verifyEntry w p entitySignature verificationContent entry)
       (\<lambda>_. verifyEntries w p entitySignature verificationContent rest)"

definition notEnough :: "nat \<Rightarrow> int \<Rightarrow> error" where
  "notEnough n t =
     ErrorString (''not enough transparency log entries: '' @ show_int (int n) @ '' < '' @ show_int t)"

definition Verify :: "World \<Rightarrow> ArtifactTransparencyLogVerifier \<Rightarrow> SignedEntity \<Rightarrow> unit io" where
  "Verify w p entity =
     andThen (call EvTlogEntries (TlogEntries entity)) (\<lambda>entries.
       if int (length entries) < threshold p then
         fail (notEnough (length entries) (threshold p))
       else
         andThen (call EvSignatureContent (SignatureContent entity)) (\<lambda>sigContent.
           let entitySignature = GetSignature sigContent in
           andThen (call EvVerificationContent (VerificationContent entity)) (\<lambda>verificationContent.
             verifyEntries w p entitySignature verificationContent entries)))"

section \<open>Observations on runs\<close>

text \<open>The three accessors of the entity, and the call that verifies a fetched log entry.\<close>

definition isFetch :: "event \<Rightarrow> bool" where
  "isFetch ev = (ev = EvTlogEntries \<or> ev = EvSignatureContent \<or> ev = EvVerificationContent)"

definition isVerifyLogEntry :: "event \<Rightarrow> bool" where
  "isVerifyLogEntry ev = (case ev of EvVerifyLogEntry a v \<Rightarrow> True | _ \<Rightarrow> False)"

definition traceAll :: "(event \<Rightarrow> bool) \<Rightarrow> 'a io \<Rightarrow> bool" where
  "traceAll Q m = list_all Q (trace m)"

text \<open>
  The situation of an entry whose log answers the query with exactly one record that has
  no entries: the key id is known, the client is resolved, and the payload is \<open>[[]]\<close>.
\<close>

definition emptyRecord :: "World \<Rightarrow> ArtifactTransparencyLogVerifier \<Rightarrow> Entry \<Rightarrow> bool" where
  "emptyRecord w p entry =
     (case LogKeyID entry of
        None \<Rightarrow> False
      | Some keyID \<Rightarrow>
          (case tlogVerifiers p (hex_EncodeToString (bytes_of keyID)) of
             Some (Some tlogVerifier) \<Rightarrow>
               (case result (getRekorClient w (BaseURL tlogVerifier)) of
                  Val (client, verifier) \<Rightarrow> SearchLogQuery w client [LogIndex entry] = Inr [[]]
                | _ \<Rightarrow> False)
           | _ \<Rightarrow> False))"

section \<open>The specification's reading of the checks\<close>

text \<open>
  For comparison with the code, the checks as the specification words them, written
  without the code's sequencing and traces. Each check either passes or finds a failure
  of one of the kinds of the specification's taxonomy (section 7), with the error that
  reports it.
\<close>

datatype kind =
    ParseError
  | InsufficientEvidence
  | MalformedEntry
  | UntrustedLogSignature
  | UnknownLogIdentifier
  | LogUnavailable
  | LogQueryFailed
  | LogEntryNotFound
  | AmbiguousLogEntry
  | LogEntryVerificationFailed
  | SignatureMismatch
  | CertificateMismatch
  | TimeOutOfRange

type_synonym finding = "(kind \<times> error) option"

text \<open>
  The accessors of the specification (section 6) return a key identifier and a log index,
  not pointers. An entry has its pointers set for a verifier when neither is nil and the
  key identifier is not mapped to a nil verifier.
\<close>

definition keyIdOf :: "Entry \<Rightarrow> string" where
  "keyIdOf e = (case LogKeyID e of Some k \<Rightarrow> k | None \<Rightarrow> [])"

definition logIndexOf :: "Entry \<Rightarrow> int" where
  "logIndexOf e = (case LogIndex e of Some i \<Rightarrow> i | None \<Rightarrow> 0)"

definition pointersSet :: "ArtifactTransparencyLogVerifier \<Rightarrow> Entry \<Rightarrow> bool" where
  "pointersSet p e =
     (LogKeyID e \<noteq> None \<and> LogIndex e \<noteq> None \<and>
      tlogVerifiers p (hex_EncodeToString (bytes_of (keyIdOf e))) \<noteq> Some None)"

text \<open>
  Section 4.2: a structural defect is found before the strategy is chosen. Section 4.3:
  offline, the signed entry timestamp must validate against the trusted root's verifiers.
\<close>

definition spec_structuralCheck :: "World \<Rightarrow> Entry \<Rightarrow> finding" where
  "spec_structuralCheck w e = map_option (Pair MalformedEntry) (ValidateEntry w e)"

definition spec_offlineCheck :: "World \<Rightarrow> ArtifactTransparencyLogVerifier \<Rightarrow> Entry \<Rightarrow> finding" where
  "spec_offlineCheck w p e =
     map_option (Pair UntrustedLogSignature) (VerifySET w e (TlogVerifiers (trustedRoot p)))"

text \<open>
  Section 4.4, online. Step 2: the log is resolved to a handle and its verification key;
  any failure on the way is LogUnavailable. Step 4: the fetched remote entry is verified
  against that key. Steps 1 and 3: a key identifier without a verifier in the map is
  UnknownLogIdentifier; a failed query is LogQueryFailed, no result LogEntryNotFound, more
  than one result AmbiguousLogEntry.
\<close>

definition spec_resolve :: "World \<Rightarrow> string \<Rightarrow> (kind \<times> error) + (Rekor \<times> Verifier)" where
  "spec_resolve w url =
     (case GetRekorClient w url of
        Inl err \<Rightarrow> Inl (LogUnavailable, err)
      | Inr handle \<Rightarrow>
          (case GetPublicKey w handle of
             Inl err \<Rightarrow> Inl (LogUnavailable, err)
           | Inr pemText \<Rightarrow>
               (case pem_Decode w pemText of
                  None \<Rightarrow> Inl (LogUnavailable, ErrorString ''failed to decode public key of server'')
                | Some der \<Rightarrow>
                    (case ParsePKIXPublicKey w der of
                       Inl err \<Rightarrow> Inl (LogUnavailable, err)
                     | Inr pub \<Rightarrow>
                         (case LoadVerifier w pub of
                            Inl err \<Rightarrow> Inl (LogUnavailable, err)
                          | Inr key \<Rightarrow> Inr (handle, key))))))"

definition spec_verifyRemote :: "World \<Rightarrow> Verifier \<Rightarrow> LogEntry \<Rightarrow> finding" where
  "spec_verifyRemote w key remote =
     (case find (\<lambda>kv. VerifyLogEntry w (snd kv) key \<noteq> None) remote of
        None \<Rightarrow> None
      | Some kv \<Rightarrow> map_option (Pair LogEntryVerificationFailed) (VerifyLogEntry w (snd kv) key))"

definition spec_onlineCheck :: "World \<Rightarrow> ArtifactTransparencyLogVerifier \<Rightarrow> Entry \<Rightarrow> finding" where
  "spec_onlineCheck w p e =
     (case tlogVerifiers p (hex_EncodeToString (bytes_of (keyIdOf e))) of
        Some (Some known) \<Rightarrow>
          (case spec_resolve w (BaseURL known) of
             Inl failure \<Rightarrow> Some failure
           | Inr (handle, key) \<Rightarrow>
               (case SearchLogQuery w handle [LogIndex e] of
                  Inl err \<Rightarrow> Some (LogQueryFailed, err)
                | Inr found \<Rightarrow>
                    if found = [] then
                      Some (LogEntryNotFound,
                        ErrorString (''unable to locate log entry '' @ show_int (logIndexOf e)))
                    else if 2 \<le> length found then
                      Some (AmbiguousLogEntry, ErrorString ''too many log entries returned'')
                    else spec_verifyRemote w key (hd found)))
      | _ \<Rightarrow>
          Some (UnknownLogIdentifier,
            ErrorString (''unable to find tlog information for key ''
              @ hex_EncodeToString (bytes_of (keyIdOf e)))))"

definition spec_strategyCheck :: "World \<Rightarrow> ArtifactTransparencyLogVerifier \<Rightarrow> Entry \<Rightarrow> finding" where
  "spec_strategyCheck w p e = (if online p then spec_onlineCheck w p e else spec_offlineCheck w p e)"

text \<open>Section 4.2: the three comparisons with the entity's own claims.\<close>

definition spec_signatureCheck :: "byte list \<Rightarrow> Entry \<Rightarrow> finding" where
  "spec_signatureCheck s e =
     (if Signature e = s then None
      else Some (SignatureMismatch, ErrorString ''transparency log signature does not match''))"

definition spec_certificateCheck :: "VerificationContent \<Rightarrow> Entry \<Rightarrow> finding" where
  "spec_certificateCheck vc e =
     (if CompareKey vc (Certificate e) then None
      else Some (CertificateMismatch, ErrorString ''transparency log certificate does not match''))"

definition spec_timeCheck :: "VerificationContent \<Rightarrow> Entry \<Rightarrow> finding" where
  "spec_timeCheck vc e =
     (if ValidAtTime vc (IntegratedTime e) then None
      else Some (TimeOutOfRange, ErrorString ''Integrated time outside certificate validity''))"

text \<open>
  Section 4.5: every entry is subject to the five checks; it passes when all do; the
  verdict on the entries is the finding of the first check that fails for the first entry,
  in the order of the entity, that does not pass.
\<close>

definition spec_entryChecks ::
  "World \<Rightarrow> ArtifactTransparencyLogVerifier \<Rightarrow> byte list \<Rightarrow> VerificationContent \<Rightarrow> Entry \<Rightarrow> finding list" where
  "spec_entryChecks w p s vc e =
     [spec_structuralCheck w e, spec_strategyCheck w p e, spec_signatureCheck s e,
      spec_certificateCheck vc e, spec_timeCheck vc e]"

fun spec_firstFailure :: "finding list \<Rightarrow> finding" where
  "spec_firstFailure [] = None"
| "spec_firstFailure (None # rest) = spec_firstFailure rest"
| "spec_firstFailure (Some failure # rest) = Some failure"

definition spec_passes ::
  "World \<Rightarrow> ArtifactTransparencyLogVerifier \<Rightarrow> byte list \<Rightarrow> VerificationContent \<Rightarrow> Entry \<Rightarrow> bool" where
  "spec_passes w p s vc e = list_all (\<lambda>r. r = None) (spec_entryChecks w p s vc e)"

definition spec_verdict ::
  "World \<Rightarrow> ArtifactTransparencyLogVerifier \<Rightarrow> byte list \<Rightarrow> VerificationContent \<Rightarrow> Entry list \<Rightarrow> finding" where
  "spec_verdict w p s vc es =
     (case find (\<lambda>e. \<not> spec_passes w p s vc e) es of
        None \<Rightarrow> None
      | Some e \<Rightarrow> spec_firstFailure (spec_entryChecks w p s vc e))"

text \<open>
  What the caller sees of a finding, and the finding on a whole entity: the extraction of
  the entries, the threshold, the signature content and the verification content come
  before the entries' checks; a failed extraction or parse is a ParseError.
\<close>

definition outcomeOf :: "finding \<Rightarrow> unit res" where
  "outcomeOf f = (case f of None \<Rightarrow> Val () | Some (k, err) \<Rightarrow> Err err)"

definition spec_outcome :: "World \<Rightarrow> ArtifactTransparencyLogVerifier \<Rightarrow> SignedEntity \<Rightarrow> finding" where
  "spec_outcome w p entity =
     (case TlogEntries entity of
        Inl err \<Rightarrow> Some (ParseError, err)
      | Inr es \<Rightarrow>
          if int (length es) < threshold p then
            Some (InsufficientEvidence,
              ErrorString (''not enough transparency log entries: '' @ show_int (int (length es))
                @ '' < '' @ show_int (threshold p)))
          else
            (case SignatureContent entity of
               Inl err \<Rightarrow> Some (ParseError, err)
             | Inr sc \<Rightarrow>
                 (case VerificationContent entity of
                    Inl err \<Rightarrow> Some (ParseError, err)
                  | Inr vc \<Rightarrow> spec_verdict w p (GetSignature sc) vc es)))"

section \<open>Recognising a failure\<close>

text \<open>
  The kinds of failure that the verifier decides itself, as opposed to those it leaves to
  a collaborator, and how a caller can recognise them: by the text of the message, the
  only content of an error built by \<^verbatim>\<open>errors.New\<close> or \<^verbatim>\<open>fmt.Errorf\<close>. A finding is
  labelled when, if its kind is one the verifier decides, its error is recognised as that
  kind.
\<close>

definition decidedByVerify :: "kind \<Rightarrow> bool" where
  "decidedByVerify k =
     (k = InsufficientEvidence \<or> k = UnknownLogIdentifier \<or> k = LogEntryNotFound \<or>
      k = AmbiguousLogEntry \<or> k = SignatureMismatch \<or> k = CertificateMismatch \<or>
      k = TimeOutOfRange)"

definition startsWith :: "string \<Rightarrow> string \<Rightarrow> bool" where
  "startsWith pfx m = (take (length pfx) m = pfx)"

definition checkOf :: "error \<Rightarrow> kind option" where
  "checkOf err =
     (case err of
        OtherError n \<Rightarrow> None
      | ErrorString m \<Rightarrow>
          if startsWith ''not enough transparency log entries: '' m then Some InsufficientEvidence
          else if startsWith ''unable to find tlog information for key '' m then
            Some UnknownLogIdentifier
          else if startsWith ''unable to locate log entry '' m then Some LogEntryNotFound
          else if m = ''too many log entries returned'' then Some AmbiguousLogEntry
          else if m = ''transparency log signature does not match'' then Some SignatureMismatch
          else if m = ''transparency log certificate does not match'' then
            Some CertificateMismatch
          else if m = ''Integrated time outside certificate validity'' then Some TimeOutOfRange
          else None)"

definition labelled :: "finding \<Rightarrow> bool" where
  "labelled f =
     (case f of
        None \<Rightarrow> True
      | Some (k, err) \<Rightarrow> decidedByVerify k \<longrightarrow> checkOf err = Some k)"

section \<open>Example inputs\<close>

text \<open>
  One trusted log, known under the key id \<^verbatim>\<open>k1\<close> (hex \<^verbatim>\<open>6b31\<close>). Its server answers
  index 7 with one record of one entry, index 8 with one record without entries, index 9
  with no record and index 10 with two records.
\<close>

definition exVerifiers :: TlogVerifiers where
  "exVerifiers =
     (\<lambda>h. if h = ''6b31'' then Some (Some \<lparr>BaseURL = ''https://rekor.example''\<rparr>) else None)"

definition exWorld :: World where
  "exWorld = \<lparr>
     ValidateEntry = (\<lambda>e. None),
     VerifySET = (\<lambda>e m. case LogKeyID e of
                     None \<Rightarrow> Some (OtherError 1)
                   | Some k \<Rightarrow> if m (hex_EncodeToString (bytes_of k)) = None
                              then Some (OtherError 2) else None),
     GetRekorClient = (\<lambda>u. if u = ''https://rekor.example'' then Inr 1 else Inl (OtherError 3)),
     GetPublicKey = (\<lambda>c. Inr ''PEM''),
     pem_Decode = (\<lambda>s. if s = ''PEM'' then Some [48] else None),
     ParsePKIXPublicKey = (\<lambda>b. Inr ''pub''),
     LoadVerifier = (\<lambda>k. Inr ''verifier''),
     SearchLogQuery = (\<lambda>c idx.
        if idx = [Some 7] then Inr [[(''uuid'', ''anon7'')]]
        else if idx = [Some 8] then Inr [[]]
        else if idx = [Some 9] then Inr []
        else if idx = [Some 10] then Inr [[], []]
        else Inl (OtherError 4)),
     VerifyLogEntry = (\<lambda>a v. if a = ''anon7'' \<and> v = ''verifier'' then None
                          else Some (OtherError 5))\<rparr>"

definition exContent :: VerificationContent where
  "exContent = \<lparr>CompareKey = (\<lambda>c. c = ''certA''), ValidAtTime = (\<lambda>t. 50 \<le> t \<and> t \<le> 150)\<rparr>"

definition exEntity :: "Entry list \<Rightarrow> SignedEntity" where
  "exEntity es = \<lparr>TlogEntries = Inr es, SignatureContent = Inr \<lparr>GetSignature = [1, 2, 3]\<rparr>,
     VerificationContent = Inr exContent\<rparr>"

definition exBroken :: SignedEntity where
  "exBroken = \<lparr>TlogEntries = Inr [], SignatureContent = Inl (OtherError 7),
     VerificationContent = Inl (OtherError 8)\<rparr>"

definition exOffline :: "int \<Rightarrow> ArtifactTransparencyLogVerifier" where
  "exOffline t =
     NewArtifactTransparencyLogVerifier \<lparr>TlogVerifiers = exVerifiers\<rparr> t False exVerifiers"

definition exOnline :: "int \<Rightarrow> ArtifactTransparencyLogVerifier" where
  "exOnline t =
     NewArtifactTransparencyLogVerifier \<lparr>TlogVerifiers = exVerifiers\<rparr> t True exVerifiers"

text \<open>
  An entry that passes everywhere, and variants of it: a different signature; an unknown
  key id; the log indices 8, 9, 10 and 11 (the server fails on 11); all three comparisons
  fail; certificate and time fail; only the time fails.
\<close>

definition exEntry :: Entry where
  "exEntry = \<lparr>LogKeyID = Some ''k1'', LogIndex = Some 7, Signature = [1, 2, 3],
     Certificate = ''certA'', IntegratedTime = 100\<rparr>"

definition exBadSig :: Entry where
  "exBadSig = exEntry\<lparr>Signature := [9]\<rparr>"

definition exUnknownKey :: Entry where
  "exUnknownKey = exEntry\<lparr>LogKeyID := Some ''zz''\<rparr>"

definition exEmptyRecord :: Entry where
  "exEmptyRecord = exEntry\<lparr>LogIndex := Some 8\<rparr>"

definition exNoRecord :: Entry where
  "exNoRecord = exEntry\<lparr>LogIndex := Some 9\<rparr>"

definition exTwoRecords :: Entry where
  "exTwoRecords = exEntry\<lparr>LogIndex := Some 10\<rparr>"

definition exUnlisted :: Entry where
  "exUnlisted = exEntry\<lparr>LogIndex := Some 11\<rparr>"

definition exBadAll :: Entry where
  "exBadAll = exEntry\<lparr>Signature := [9], Certificate := ''certB'', IntegratedTime := 200\<rparr>"

definition exBadCert :: Entry where
  "exBadCert = exEntry\<lparr>Certificate := ''certB'', IntegratedTime := 200\<rparr>"

definition exLate :: Entry where
  "exLate = exEntry\<lparr>IntegratedTime := 200\<rparr>"

text \<open>
  A server that answers a query without index with no record; an entry without log index;
  an entry without key identifier.
\<close>

definition exSilent :: World where
  "exSilent = exWorld\<lparr>SearchLogQuery :=
     (\<lambda>c idx. if idx = [None] then Inr [] else SearchLogQuery exWorld c idx)\<rparr>"

definition exNilIndex :: Entry where
  "exNilIndex = exEntry\<lparr>LogIndex := None\<rparr>"

definition exNilKey :: Entry where
  "exNilKey = exEntry\<lparr>LogKeyID := None\<rparr>"

section \<open>Sequencing, results and traces\<close>

lemma result_andThen:
  "result (andThen m f) =
     (case result m of Val a \<Rightarrow> result (f a) | Err e \<Rightarrow> Err e | Panicked \<Rightarrow> Panicked)"
  by (simp add: result_def andThen_def split: res.splits)

lemma trace_andThen:
  "trace (andThen m f) =
     (case result m of Val a \<Rightarrow> trace m @ trace (f a) | Err e \<Rightarrow> trace m | Panicked \<Rightarrow> trace m)"
  by (simp add: result_def trace_def andThen_def split: res.splits)

lemma io_eq: "m = (trace m, result m)"
  by (simp add: trace_def result_def)

lemma andThen_Val: "result m = Val a \<Longrightarrow> andThen m f = (trace m @ trace (f a), result (f a))"
  by (simp add: result_def trace_def andThen_def)

lemma andThen_not_Val: "(\<And>a. result m \<noteq> Val a) \<Longrightarrow> andThen m f = m"
  by (cases m; cases "snd m") (auto simp add: result_def andThen_def)

lemma io_simps:
  "result (call ev r) = (case r of Inl e \<Rightarrow> Err e | Inr a \<Rightarrow> Val a)" "trace (call ev r) = [ev]"
  "result (callErr ev r') = (case r' of Some e \<Rightarrow> Err e | None \<Rightarrow> Val ())"
  "trace (callErr ev r') = [ev]"
  "result (callPure ev a) = Val a" "trace (callPure ev a) = [ev]"
  "result (fail e) = Err e" "trace (fail e) = []"
  "result panic = Panicked" "trace panic = []"
  "result (ret a) = Val a" "trace (ret a) = []"
  "result (t, x) = x" "trace (t, x) = t"
  by (simp_all add: result_def trace_def call_def callErr_def callPure_def fail_def panic_def
      ret_def)

lemma show_nat_digit: "n < 10 \<Longrightarrow> show_nat n = [digit n]"
  by (simp add: show_nat.simps)

lemmas run_simps = Verify_def andThen_def call_def callErr_def callPure_def ret_def fail_def
  panic_def verifyEntry_def strategyCheck_def onlineCheck_def getRekorClient_def crossChecks_def
  notEnough_def trace_def result_def Let_def bytes_of_def hextable_def show_int_def show_nat_digit
  digit_def

lemmas ex_defs = exEntity_def exOffline_def exOnline_def NewArtifactTransparencyLogVerifier_def
  exEntry_def exBadSig_def exWorld_def exVerifiers_def exContent_def

lemma ex_simps:
  "exEntity es = \<lparr>TlogEntries = Inr es, SignatureContent = Inr \<lparr>GetSignature = [1, 2, 3]\<rparr>,
     VerificationContent = Inr exContent\<rparr>"
  "threshold (exOffline t) = t" "threshold (exOnline t) = t"
  "online (exOffline t) = False" "online (exOnline t) = True"
  by (simp_all add: exEntity_def exOffline_def exOnline_def NewArtifactTransparencyLogVerifier_def)

section \<open>The loop over the entries\<close>

lemma verifyEntries_success:
  "(result (verifyEntries w p s vc es) = Val ()) =
   (\<forall>e \<in> set es. result (verifyEntry w p s vc e) = Val ())"
  by (induction es) (auto simp add: result_andThen io_simps split: res.splits)

lemma verifyEntries_append:
  "\<forall>x \<in> set pre. result (verifyEntry w p s vc x) = Val () \<Longrightarrow>
   verifyEntries w p s vc (pre @ es) =
     (concat (map (\<lambda>x. trace (verifyEntry w p s vc x)) pre) @ trace (verifyEntries w p s vc es),
      result (verifyEntries w p s vc es))"
proof (induction pre)
  case Nil
  show ?case by (simp add: io_eq [symmetric])
next
  case (Cons x pre)
  then have x: "result (verifyEntry w p s vc x) = Val ()" by simp
  from Cons show ?case
    by (simp add: andThen_Val [OF x] trace_def result_def)
qed

lemma verifyEntries_stop:
  assumes "result (verifyEntry w p s vc e) \<noteq> Val ()"
  shows "verifyEntries w p s vc (e # post) = verifyEntry w p s vc e"
  using assms by (simp add: andThen_not_Val)

lemma Verify_loop:
  assumes "TlogEntries entity = Inr es" "\<not> int (length es) < threshold p"
    "SignatureContent entity = Inr sc" "VerificationContent entity = Inr vc"
  shows "Verify w p entity =
    ([EvTlogEntries, EvSignatureContent, EvVerificationContent]
       @ trace (verifyEntries w p (GetSignature sc) vc es),
     result (verifyEntries w p (GetSignature sc) vc es))"
  using assms by (simp add: Verify_def andThen_def call_def trace_def result_def Let_def)

lemma Verify_success_iff:
  "(result (Verify w p entity) = Val ()) =
   (\<exists>es sc vc. TlogEntries entity = Inr es \<and> \<not> int (length es) < threshold p \<and>
      SignatureContent entity = Inr sc \<and> VerificationContent entity = Inr vc \<and>
      (\<forall>e \<in> set es. result (verifyEntry w p (GetSignature sc) vc e) = Val ()))"
  by (cases "TlogEntries entity"; cases "SignatureContent entity"; cases "VerificationContent entity")
    (simp_all add: Verify_def result_andThen call_def fail_def Let_def result_def [of "(a, b)" for a b]
      verifyEntries_success)

section \<open>What a trace can contain\<close>

lemma traceAll_andThen:
  "traceAll Q m \<Longrightarrow> (\<And>a. result m = Val a \<Longrightarrow> traceAll Q (f a)) \<Longrightarrow> traceAll Q (andThen m f)"
  by (simp add: traceAll_def trace_andThen split: res.splits)

lemma traceAll_prims:
  "Q ev \<Longrightarrow> traceAll Q (call ev r)" "Q ev \<Longrightarrow> traceAll Q (callErr ev r')"
  "Q ev \<Longrightarrow> traceAll Q (callPure ev a)" "traceAll Q (fail e)" "traceAll Q panic" "traceAll Q (ret b)"
  by (simp_all add: traceAll_def io_simps)

lemma traceAll_getRekorClient:
  assumes "\<And>u. Q (EvGetRekorClient u)" "\<And>c. Q (EvGetPublicKey c)" "\<And>s. Q (EvPemDecode s)"
    "\<And>b. Q (EvParsePKIXPublicKey b)" "\<And>k. Q (EvLoadVerifier k)"
  shows "traceAll Q (getRekorClient w url)"
  unfolding getRekorClient_def
  by (auto intro!: traceAll_andThen traceAll_prims assms split: option.split)

lemma traceAll_verifyLogEntries:
  assumes "\<And>a v. Q (EvVerifyLogEntry a v)"
  shows "traceAll Q (verifyLogEntries w v kvs)"
  by (induction kvs) (auto intro!: traceAll_andThen traceAll_prims assms)

lemma traceAll_crossChecks:
  assumes "\<And>c. Q (EvCompareKey c)" "\<And>t. Q (EvValidAtTime t)"
  shows "traceAll Q (crossChecks s vc e)"
  unfolding crossChecks_def
  by (auto intro!: traceAll_andThen traceAll_prims assms)

lemma traceAll_verifyEntries:
  assumes "\<And>e. e \<in> set es \<Longrightarrow> traceAll Q (verifyEntry w p s vc e)"
  shows "traceAll Q (verifyEntries w p s vc es)"
  using assms by (induction es) (auto intro!: traceAll_andThen traceAll_prims)

lemma traceAll_onlineCheck:
  assumes "\<And>u. Q (EvGetRekorClient u)" "\<And>c. Q (EvGetPublicKey c)" "\<And>s. Q (EvPemDecode s)"
    "\<And>b. Q (EvParsePKIXPublicKey b)" "\<And>k. Q (EvLoadVerifier k)"
    "\<And>c i. Q (EvSearchLogQuery c i)" "\<And>a v. Q (EvVerifyLogEntry a v)"
  shows "traceAll Q (onlineCheck w p e)"
  unfolding onlineCheck_def Let_def
  by (auto intro!: traceAll_andThen traceAll_prims traceAll_getRekorClient
      traceAll_verifyLogEntries assms split: option.split)

lemma noFetch_verifyEntry: "traceAll (\<lambda>ev. \<not> isFetch ev) (verifyEntry w p s vc e)"
  unfolding verifyEntry_def strategyCheck_def
  by (auto intro!: traceAll_andThen traceAll_prims traceAll_onlineCheck traceAll_crossChecks
      simp add: isFetch_def)

section \<open>The threshold\<close>

text \<open>
  C1. When the entries are extracted and there are fewer of them than the threshold,
  \<^verbatim>\<open>Verify\<close> returns the error "not enough transparency log entries: n < t" (the
  InsufficientEvidence of the specification), and the only call it has made is the one
  that extracted the entries: no entry is validated, no SET is verified, no log is
  resolved or queried, and the signature and verification content are not even fetched.
  This holds in both modes.
\<close>

theorem Verify_below_threshold:
  assumes "TlogEntries entity = Inr entries" and "int (length entries) < threshold p"
  shows "Verify w p entity =
    ([EvTlogEntries],
     Err (ErrorString (''not enough transparency log entries: '' @ show_int (int (length entries))
            @ '' < '' @ show_int (threshold p))))"
  using assms by (simp add: Verify_def andThen_def call_def fail_def notEnough_def)

theorem Verify_below_threshold_witness:
  "Verify exWorld (exOnline 2) (exEntity [exEntry]) =
     ([EvTlogEntries], Err (ErrorString ''not enough transparency log entries: 1 < 2''))"
proof -
  have a: "TlogEntries (exEntity [exEntry]) = Inr [exEntry]"
    by (simp add: ex_simps)
  have b: "int (length [exEntry]) < threshold (exOnline 2)"
    by (simp add: ex_simps)
  from Verify_below_threshold [OF a b, of exWorld] show ?thesis
    by (simp add: ex_simps show_int_def show_nat_digit digit_def)
qed

text \<open>
  C10. The constructor stores the threshold it is given, whatever its sign. With a
  threshold of zero or less, an entity without entries whose signature content and
  verification content parse passes \<^verbatim>\<open>Verify\<close>, offline and online alike, and the
  three accessors of the entity are the only calls made.
\<close>

theorem Verify_nonpositive_threshold_no_entries:
  assumes "t \<le> 0" and "TlogEntries entity = Inr []"
    and "SignatureContent entity = Inr sc" and "VerificationContent entity = Inr vc"
  shows "threshold (NewArtifactTransparencyLogVerifier tr t onl vs) = t \<and>
    Verify w (NewArtifactTransparencyLogVerifier tr t onl vs) entity =
      ([EvTlogEntries, EvSignatureContent, EvVerificationContent], Val ())"
  using assms
  by (simp add: Verify_def NewArtifactTransparencyLogVerifier_def andThen_def call_def ret_def)

theorem Verify_nonpositive_threshold_no_entries_witness:
  "Verify exWorld (exOffline (- 3)) (exEntity []) =
     ([EvTlogEntries, EvSignatureContent, EvVerificationContent], Val ()) \<and>
   Verify exWorld (exOnline 0) (exEntity []) =
     ([EvTlogEntries, EvSignatureContent, EvVerificationContent], Val ())"
proof -
  have a: "(- 3 :: int) \<le> 0" "(0 :: int) \<le> 0" by simp_all
  have b: "TlogEntries (exEntity []) = Inr []"
    "SignatureContent (exEntity []) = Inr \<lparr>GetSignature = [1, 2, 3]\<rparr>"
    "VerificationContent (exEntity []) = Inr exContent"
    by (simp_all add: ex_simps)
  from Verify_nonpositive_threshold_no_entries
         [OF a(1) b, of "\<lparr>TlogVerifiers = exVerifiers\<rparr>" False exVerifiers exWorld]
    Verify_nonpositive_threshold_no_entries
         [OF a(2) b, of "\<lparr>TlogVerifiers = exVerifiers\<rparr>" True exVerifiers exWorld]
  show ?thesis
    by (simp add: exOffline_def exOnline_def)
qed

section \<open>The order of the fetches\<close>

text \<open>
  C8, as the specification states it, fails: the signature content and the verification
  content are fetched after the threshold check, not before. An entity without entries
  whose signature content does not parse, checked against a threshold of 1, gets the
  threshold error, and its signature content is never asked for.
\<close>

theorem fetch_before_threshold_counterexample:
  "SignatureContent exBroken = Inl (OtherError 7) \<and>
   Verify exWorld (exOffline 1) exBroken =
     ([EvTlogEntries], Err (ErrorString ''not enough transparency log entries: 0 < 1''))"
  by (simp add: exBroken_def Verify_def andThen_def call_def fail_def notEnough_def ex_simps
      show_int_def show_nat_digit digit_def)

text \<open>
  C8, amended. \<^verbatim>\<open>Verify\<close> fetches the entries first and checks the threshold at once;
  below the threshold nothing else is fetched. Otherwise it fetches the signature
  content, then the verification content, each once, surfacing a parse failure of either,
  and only then enters the loop, which fetches nothing from the entity again.
\<close>

theorem Verify_fetches:
  assumes "TlogEntries entity = Inr entries"
  shows "Verify w p entity =
     (if int (length entries) < threshold p then
        ([EvTlogEntries], Err (notEnough (length entries) (threshold p)))
      else
        (case SignatureContent entity of
           Inl err \<Rightarrow> ([EvTlogEntries, EvSignatureContent], Err err)
         | Inr sc \<Rightarrow>
             (case VerificationContent entity of
                Inl err \<Rightarrow> ([EvTlogEntries, EvSignatureContent, EvVerificationContent], Err err)
              | Inr vc \<Rightarrow>
                  ([EvTlogEntries, EvSignatureContent, EvVerificationContent]
                     @ trace (verifyEntries w p (GetSignature sc) vc entries),
                   result (verifyEntries w p (GetSignature sc) vc entries)))))
   \<and> (\<forall>s vc. list_all (\<lambda>ev. \<not> isFetch ev) (trace (verifyEntries w p s vc entries)))"
proof -
  have "traceAll (\<lambda>ev. \<not> isFetch ev) (verifyEntries w p s vc entries)" for s vc
    by (rule traceAll_verifyEntries) (rule noFetch_verifyEntry)
  then have "\<forall>s vc. list_all (\<lambda>ev. \<not> isFetch ev) (trace (verifyEntries w p s vc entries))"
    by (simp add: traceAll_def)
  moreover have "Verify w p entity =
     (if int (length entries) < threshold p then
        ([EvTlogEntries], Err (notEnough (length entries) (threshold p)))
      else
        (case SignatureContent entity of
           Inl err \<Rightarrow> ([EvTlogEntries, EvSignatureContent], Err err)
         | Inr sc \<Rightarrow>
             (case VerificationContent entity of
                Inl err \<Rightarrow> ([EvTlogEntries, EvSignatureContent, EvVerificationContent], Err err)
              | Inr vc \<Rightarrow>
                  ([EvTlogEntries, EvSignatureContent, EvVerificationContent]
                     @ trace (verifyEntries w p (GetSignature sc) vc entries),
                   result (verifyEntries w p (GetSignature sc) vc entries)))))"
    using assms
    by (simp add: Verify_def andThen_def call_def fail_def Let_def trace_def result_def
        split: sum.splits)
  ultimately show ?thesis by simp
qed

theorem Verify_fetches_witness:
  "Verify exWorld (exOffline 1) (exEntity [exEntry]) =
     ([EvTlogEntries, EvSignatureContent, EvVerificationContent, EvValidateEntry exEntry,
       EvVerifySET exEntry, EvCompareKey ''certA'', EvValidAtTime 100], Val ())"
proof -
  have a: "TlogEntries (exEntity [exEntry]) = Inr [exEntry]"
    by (simp add: ex_simps)
  have b: "verifyEntries exWorld (exOffline 1) [1, 2, 3] exContent [exEntry] =
    ([EvValidateEntry exEntry, EvVerifySET exEntry, EvCompareKey ''certA'', EvValidAtTime 100],
     Val ())"
    by (simp add: run_simps ex_defs)
  from Verify_fetches [OF a, of exWorld "exOffline 1"] show ?thesis
    by (simp add: ex_simps b io_simps del: verifyEntries.simps)
qed

section \<open>The order of the entries\<close>

text \<open>
  C9. With the collaborators fixed, \<^verbatim>\<open>Verify\<close> succeeds on an entity exactly when it
  succeeds on the same entity with its entries permuted: the order of the entries
  can change which error is reported, never whether there is one.
\<close>

theorem Verify_permutation:
  assumes "mset es' = mset es"
  shows "(result (Verify w p (entity\<lparr>TlogEntries := Inr es'\<rparr>)) = Val ()) =
    (result (Verify w p (entity\<lparr>TlogEntries := Inr es\<rparr>)) = Val ())"
proof -
  from assms have "set es' = set es" and "length es' = length es"
    by (auto dest: mset_eq_setD mset_eq_length)
  then show ?thesis
    by (simp add: Verify_success_iff)
qed

theorem Verify_permutation_witness:
  "result (Verify exWorld (exOffline 1) ((exEntity [])\<lparr>TlogEntries := Inr [exEntry, exBadSig]\<rparr>))
     \<noteq> Val () \<and>
   result (Verify exWorld (exOffline 1) ((exEntity [])\<lparr>TlogEntries := Inr [exBadSig, exEntry]\<rparr>))
     \<noteq> Val ()"
proof -
  have a: "mset [exBadSig, exEntry] = mset [exEntry, exBadSig]"
    by (simp add: add.commute)
  have b: "result (Verify exWorld (exOffline 1)
      ((exEntity [])\<lparr>TlogEntries := Inr [exEntry, exBadSig]\<rparr>)) \<noteq> Val ()"
    by (simp add: run_simps ex_defs)
  from Verify_permutation [OF a, of exWorld "exOffline 1" "exEntity []"] b show ?thesis
    by simp
qed

section \<open>The online strategy\<close>

lemmas ex_defs2 = ex_defs exUnknownKey_def exEmptyRecord_def exNoRecord_def exTwoRecords_def

lemma Verify_stops_at:
  assumes "TlogEntries entity = Inr (pre @ e # post)"
    and "\<not> int (length (pre @ e # post)) < threshold p"
    and "SignatureContent entity = Inr sc" and "VerificationContent entity = Inr vc"
    and "\<forall>x \<in> set pre. result (verifyEntry w p (GetSignature sc) vc x) = Val ()"
    and "result (verifyEntry w p (GetSignature sc) vc e) \<noteq> Val ()"
  shows "Verify w p entity =
    ([EvTlogEntries, EvSignatureContent, EvVerificationContent]
       @ concat (map (\<lambda>x. trace (verifyEntry w p (GetSignature sc) vc x)) pre)
       @ trace (verifyEntry w p (GetSignature sc) vc e),
     result (verifyEntry w p (GetSignature sc) vc e))"
  by (simp only: Verify_loop [OF assms(1-4)] verifyEntries_append [OF assms(5)]
      verifyEntries_stop [OF assms(6)] io_simps)

lemma verifyEntry_valid:
  "ValidateEntry w e = None \<Longrightarrow>
   verifyEntry w p s vc e =
     (EvValidateEntry e # trace (andThen (strategyCheck w p e) (\<lambda>_. crossChecks s vc e)),
      result (andThen (strategyCheck w p e) (\<lambda>_. crossChecks s vc e)))"
  by (simp add: verifyEntry_def andThen_def callErr_def trace_def result_def)

lemma onlineCheck_unknown:
  assumes "LogKeyID e = Some keyID"
    and "tlogVerifiers p (hex_EncodeToString (bytes_of keyID)) = None"
  shows "onlineCheck w p e =
    ([], Err (ErrorString (''unable to find tlog information for key ''
               @ hex_EncodeToString (bytes_of keyID))))"
  using assms by (simp add: onlineCheck_def fail_def)

lemma onlineCheck_query:
  assumes "LogKeyID e = Some keyID"
    and "tlogVerifiers p (hex_EncodeToString (bytes_of keyID)) = Some (Some tv)"
    and "result (getRekorClient w (BaseURL tv)) = Val (client, verifier)"
    and "SearchLogQuery w client [LogIndex e] = Inr payload"
  shows "onlineCheck w p e =
    (trace (getRekorClient w (BaseURL tv)) @ EvSearchLogQuery client [LogIndex e] #
       trace (if length payload = 0 then
                (case LogIndex e of
                   None \<Rightarrow> panic
                 | Some i \<Rightarrow> fail (ErrorString (''unable to locate log entry '' @ show_int i)))
              else if length payload > 1 then fail (ErrorString ''too many log entries returned'')
              else verifyLogEntries w verifier (payload ! 0)),
     result (if length payload = 0 then
                (case LogIndex e of
                   None \<Rightarrow> panic
                 | Some i \<Rightarrow> fail (ErrorString (''unable to locate log entry '' @ show_int i)))
              else if length payload > 1 then fail (ErrorString ''too many log entries returned'')
              else verifyLogEntries w verifier (payload ! 0)))"
  using assms
  by (simp add: onlineCheck_def Let_def andThen_Val [OF assms(3)] io_simps)
    (simp add: andThen_def call_def trace_def result_def fail_def panic_def split: option.split)

text \<open>
  C5. Online, an entry that is reached (the entries before it pass) and passes the
  structural validation, and whose key id in hex is not a key of the verifier's map, makes
  \<^verbatim>\<open>Verify\<close> return "unable to find tlog information for key ..." (the
  UnknownLogIdentifier of the specification). The last call of the run is the validation
  of that entry: no client is resolved and no log is queried for it.
\<close>

theorem Verify_unknown_log_identifier:
  assumes "online p"
    and "TlogEntries entity = Inr (pre @ e # post)"
    and "\<not> int (length (pre @ e # post)) < threshold p"
    and "SignatureContent entity = Inr sc" and "VerificationContent entity = Inr vc"
    and "\<forall>x \<in> set pre. result (verifyEntry w p (GetSignature sc) vc x) = Val ()"
    and "ValidateEntry w e = None"
    and "LogKeyID e = Some keyID"
    and "tlogVerifiers p (hex_EncodeToString (bytes_of keyID)) = None"
  shows "Verify w p entity =
    ([EvTlogEntries, EvSignatureContent, EvVerificationContent]
       @ concat (map (\<lambda>x. trace (verifyEntry w p (GetSignature sc) vc x)) pre)
       @ [EvValidateEntry e],
     Err (ErrorString (''unable to find tlog information for key ''
            @ hex_EncodeToString (bytes_of keyID))))"
proof -
  have "verifyEntry w p (GetSignature sc) vc e =
    ([EvValidateEntry e],
     Err (ErrorString (''unable to find tlog information for key ''
            @ hex_EncodeToString (bytes_of keyID))))"
    using assms(1)
    by (simp add: verifyEntry_valid [OF assms(7)] strategyCheck_def
        onlineCheck_unknown [OF assms(8,9)] andThen_def io_simps)
  with Verify_stops_at [OF assms(2-6)] show ?thesis
    by (simp add: io_simps)
qed

theorem Verify_unknown_log_identifier_witness:
  "Verify exWorld (exOnline 1) (exEntity [exEntry, exUnknownKey]) =
    ([EvTlogEntries, EvSignatureContent, EvVerificationContent,
      EvValidateEntry exEntry, EvGetRekorClient ''https://rekor.example'', EvGetPublicKey 1,
      EvPemDecode ''PEM'', EvParsePKIXPublicKey [48], EvLoadVerifier ''pub'',
      EvSearchLogQuery 1 [Some 7], EvVerifyLogEntry ''anon7'' ''verifier'',
      EvCompareKey ''certA'', EvValidAtTime 100,
      EvValidateEntry exUnknownKey],
     Err (ErrorString ''unable to find tlog information for key 7a7a''))"
proof -
  have a: "online (exOnline 1)"
    "TlogEntries (exEntity [exEntry, exUnknownKey]) = Inr ([exEntry] @ exUnknownKey # [])"
    "\<not> int (length ([exEntry] @ exUnknownKey # [])) < threshold (exOnline 1)"
    "SignatureContent (exEntity [exEntry, exUnknownKey]) = Inr \<lparr>GetSignature = [1, 2, 3]\<rparr>"
    "VerificationContent (exEntity [exEntry, exUnknownKey]) = Inr exContent"
    by (simp_all add: ex_simps)
  have b: "verifyEntry exWorld (exOnline 1) [1, 2, 3] exContent exEntry =
    ([EvValidateEntry exEntry, EvGetRekorClient ''https://rekor.example'', EvGetPublicKey 1,
      EvPemDecode ''PEM'', EvParsePKIXPublicKey [48], EvLoadVerifier ''pub'',
      EvSearchLogQuery 1 [Some 7], EvVerifyLogEntry ''anon7'' ''verifier'',
      EvCompareKey ''certA'', EvValidAtTime 100], Val ())"
    by (simp add: run_simps ex_defs2)
  have c: "\<forall>x \<in> set [exEntry].
      result (verifyEntry exWorld (exOnline 1) (GetSignature \<lparr>GetSignature = [1, 2, 3]\<rparr>) exContent x) = Val ()"
    by (simp add: b io_simps)
  have d: "ValidateEntry exWorld exUnknownKey = None" "LogKeyID exUnknownKey = Some ''zz''"
    "tlogVerifiers (exOnline 1) (hex_EncodeToString (bytes_of ''zz'')) = None"
    by (simp_all add: run_simps ex_defs2)
  from Verify_unknown_log_identifier [OF a c d] show ?thesis
    by (simp add: b io_simps bytes_of_def hextable_def)
qed

lemma ex_online_entry:
  "verifyEntry exWorld (exOnline t) [1, 2, 3] exContent exEntry =
    ([EvValidateEntry exEntry, EvGetRekorClient ''https://rekor.example'', EvGetPublicKey 1,
      EvPemDecode ''PEM'', EvParsePKIXPublicKey [48], EvLoadVerifier ''pub'',
      EvSearchLogQuery 1 [Some 7], EvVerifyLogEntry ''anon7'' ''verifier'',
      EvCompareKey ''certA'', EvValidAtTime 100], Val ())"
  by (simp add: run_simps ex_defs2)


section \<open>The checks of one entry\<close>

lemma result_crossChecks:
  "result (crossChecks s vc e) =
     (if Signature e \<noteq> s then Err (ErrorString ''transparency log signature does not match'')
      else if \<not> CompareKey vc (Certificate e) then
        Err (ErrorString ''transparency log certificate does not match'')
      else if \<not> ValidAtTime vc (IntegratedTime e) then
        Err (ErrorString ''Integrated time outside certificate validity'')
      else Val ())"
  by (simp add: crossChecks_def result_andThen io_simps)

lemma trace_crossChecks:
  "trace (crossChecks s vc e) =
     (if Signature e \<noteq> s then []
      else if \<not> CompareKey vc (Certificate e) then [EvCompareKey (Certificate e)]
      else [EvCompareKey (Certificate e), EvValidAtTime (IntegratedTime e)])"
  by (simp add: crossChecks_def trace_andThen io_simps)

lemma strategyCheck_emptyRecord:
  assumes "online p" and "emptyRecord w p e"
  shows "result (strategyCheck w p e) = Val ()"
    and "traceAll (\<lambda>ev. \<not> isVerifyLogEntry ev) (strategyCheck w p e)"
proof -
  from assms(2) obtain keyID tv client verifier where h:
    "LogKeyID e = Some keyID"
    "tlogVerifiers p (hex_EncodeToString (bytes_of keyID)) = Some (Some tv)"
    "result (getRekorClient w (BaseURL tv)) = Val (client, verifier)"
    "SearchLogQuery w client [LogIndex e] = Inr [[]]"
    by (auto simp add: emptyRecord_def split: option.splits res.splits)
  have g: "traceAll (\<lambda>ev. \<not> isVerifyLogEntry ev) (getRekorClient w (BaseURL tv))"
    by (rule traceAll_getRekorClient) (simp_all add: isVerifyLogEntry_def)
  from assms(1) show "result (strategyCheck w p e) = Val ()"
    by (simp add: strategyCheck_def onlineCheck_query [OF h] io_simps)
  from assms(1) g show "traceAll (\<lambda>ev. \<not> isVerifyLogEntry ev) (strategyCheck w p e)"
    by (simp add: strategyCheck_def onlineCheck_query [OF h] io_simps traceAll_def
        isVerifyLogEntry_def)
qed

lemma verifyEntry_emptyRecord:
  assumes "online p" and "ValidateEntry w e = None" and "emptyRecord w p e"
  shows "result (verifyEntry w p s vc e) = result (crossChecks s vc e)"
    and "traceAll (\<lambda>ev. \<not> isVerifyLogEntry ev) (verifyEntry w p s vc e)"
proof -
  show "result (verifyEntry w p s vc e) = result (crossChecks s vc e)"
    by (simp add: verifyEntry_valid [OF assms(2)] io_simps result_andThen
        strategyCheck_emptyRecord(1) [OF assms(1,3)])
  have "traceAll (\<lambda>ev. \<not> isVerifyLogEntry ev) (crossChecks s vc e)"
    by (rule traceAll_crossChecks) (simp_all add: isVerifyLogEntry_def)
  then show "traceAll (\<lambda>ev. \<not> isVerifyLogEntry ev) (verifyEntry w p s vc e)"
    unfolding verifyEntry_def
    by (intro traceAll_andThen traceAll_prims strategyCheck_emptyRecord(2) [OF assms(1,3)])
      (simp_all add: isVerifyLogEntry_def)
qed

text \<open>
  C3. Online, let every entry of an entity that reaches the loop pass the structural
  validation and get, from its resolved log, exactly one record that holds no entry. Then
  the run never calls \<^verbatim>\<open>VerifyLogEntry\<close>, and \<^verbatim>\<open>Verify\<close> succeeds exactly when the
  three comparisons with the entity hold for every entry: nothing is ever verified against
  the public key of the log.
\<close>

theorem Verify_empty_record:
  assumes "online p"
    and "TlogEntries entity = Inr es" and "\<not> int (length es) < threshold p"
    and "SignatureContent entity = Inr sc" and "VerificationContent entity = Inr vc"
    and "\<forall>e \<in> set es. ValidateEntry w e = None \<and> emptyRecord w p e"
  shows "(result (Verify w p entity) = Val ()) =
      (\<forall>e \<in> set es. Signature e = GetSignature sc \<and> CompareKey vc (Certificate e)
          \<and> ValidAtTime vc (IntegratedTime e))
    \<and> list_all (\<lambda>ev. \<not> isVerifyLogEntry ev) (trace (Verify w p entity))"
proof -
  have r: "result (verifyEntry w p (GetSignature sc) vc e) = result (crossChecks (GetSignature sc) vc e)"
    if "e \<in> set es" for e
    using that assms(6) by (intro verifyEntry_emptyRecord(1) [OF assms(1)]) auto
  have "traceAll (\<lambda>ev. \<not> isVerifyLogEntry ev) (verifyEntries w p (GetSignature sc) vc es)"
    using assms(6) by (intro traceAll_verifyEntries verifyEntry_emptyRecord(2) [OF assms(1)]) auto
  then have t: "list_all (\<lambda>ev. \<not> isVerifyLogEntry ev) (trace (Verify w p entity))"
    by (simp add: Verify_loop [OF assms(2-5)] io_simps traceAll_def isVerifyLogEntry_def)
  have "(result (Verify w p entity) = Val ()) =
      (\<forall>e \<in> set es. result (crossChecks (GetSignature sc) vc e) = Val ())"
    by (simp add: Verify_loop [OF assms(2-5)] io_simps verifyEntries_success r)
  also have "\<dots> = (\<forall>e \<in> set es. Signature e = GetSignature sc \<and> CompareKey vc (Certificate e)
          \<and> ValidAtTime vc (IntegratedTime e))"
    by (auto simp add: result_crossChecks)
  finally show ?thesis using t by simp
qed

theorem Verify_empty_record_witness:
  "Verify exWorld (exOnline 1) (exEntity [exEmptyRecord]) =
     ([EvTlogEntries, EvSignatureContent, EvVerificationContent, EvValidateEntry exEmptyRecord,
       EvGetRekorClient ''https://rekor.example'', EvGetPublicKey 1, EvPemDecode ''PEM'',
       EvParsePKIXPublicKey [48], EvLoadVerifier ''pub'', EvSearchLogQuery 1 [Some 8],
       EvCompareKey ''certA'', EvValidAtTime 100], Val ())"
proof -
  have a: "online (exOnline 1)" "TlogEntries (exEntity [exEmptyRecord]) = Inr [exEmptyRecord]"
    "\<not> int (length [exEmptyRecord]) < threshold (exOnline 1)"
    "SignatureContent (exEntity [exEmptyRecord]) = Inr \<lparr>GetSignature = [1, 2, 3]\<rparr>"
    "VerificationContent (exEntity [exEmptyRecord]) = Inr exContent"
    by (simp_all add: ex_simps)
  have "emptyRecord exWorld (exOnline 1) exEmptyRecord"
    by (simp add: emptyRecord_def run_simps ex_defs2)
  then have b: "\<forall>e \<in> set [exEmptyRecord]. ValidateEntry exWorld e = None \<and> emptyRecord exWorld (exOnline 1) e"
    by (simp add: exWorld_def)
  have c: "trace (Verify exWorld (exOnline 1) (exEntity [exEmptyRecord])) =
     [EvTlogEntries, EvSignatureContent, EvVerificationContent, EvValidateEntry exEmptyRecord,
       EvGetRekorClient ''https://rekor.example'', EvGetPublicKey 1, EvPemDecode ''PEM'',
       EvParsePKIXPublicKey [48], EvLoadVerifier ''pub'', EvSearchLogQuery 1 [Some 8],
       EvCompareKey ''certA'', EvValidAtTime 100]"
    by (simp add: run_simps ex_defs2)
  have d: "Signature exEmptyRecord = [1, 2, 3]" "CompareKey exContent (Certificate exEmptyRecord)"
    "ValidAtTime exContent (IntegratedTime exEmptyRecord)"
    by (simp_all add: ex_defs2)
  from Verify_empty_record [OF a b] d have "result (Verify exWorld (exOnline 1) (exEntity [exEmptyRecord])) = Val ()"
    by simp
  with c show ?thesis
    by (simp add: trace_def result_def prod_eq_iff)
qed

text \<open>
  C6. For an entry that is reached and has passed the structural validation and the check
  of its strategy, the result of \<^verbatim>\<open>Verify\<close> is decided in this order: a signature
  that differs from the entity's gives "transparency log signature does not match"
  (SignatureMismatch); otherwise a certificate that \<^verbatim>\<open>CompareKey\<close> rejects gives
  "transparency log certificate does not match" (CertificateMismatch); otherwise an
  integrated time that \<^verbatim>\<open>ValidAtTime\<close> rejects gives "Integrated time outside
  certificate validity" (TimeOutOfRange); otherwise the loop goes on with the next entry.
  \<^verbatim>\<open>CompareKey\<close> is called only after the signatures matched, \<^verbatim>\<open>ValidAtTime\<close>
  only after the certificate matched.
\<close>

theorem Verify_cross_checks:
  assumes "TlogEntries entity = Inr (pre @ e # post)"
    and "\<not> int (length (pre @ e # post)) < threshold p"
    and "SignatureContent entity = Inr sc" and "VerificationContent entity = Inr vc"
    and "\<forall>x \<in> set pre. result (verifyEntry w p (GetSignature sc) vc x) = Val ()"
    and "ValidateEntry w e = None"
    and "result (strategyCheck w p e) = Val ()"
  shows "result (Verify w p entity) =
      (if Signature e \<noteq> GetSignature sc then
         Err (ErrorString ''transparency log signature does not match'')
       else if \<not> CompareKey vc (Certificate e) then
         Err (ErrorString ''transparency log certificate does not match'')
       else if \<not> ValidAtTime vc (IntegratedTime e) then
         Err (ErrorString ''Integrated time outside certificate validity'')
       else result (verifyEntries w p (GetSignature sc) vc post))
    \<and> trace (crossChecks (GetSignature sc) vc e) =
      (if Signature e \<noteq> GetSignature sc then []
       else if \<not> CompareKey vc (Certificate e) then [EvCompareKey (Certificate e)]
       else [EvCompareKey (Certificate e), EvValidAtTime (IntegratedTime e)])"
proof -
  have v: "result (verifyEntry w p (GetSignature sc) vc e) = result (crossChecks (GetSignature sc) vc e)"
    by (simp add: verifyEntry_valid [OF assms(6)] io_simps result_andThen assms(7))
  have "result (Verify w p entity) =
     (case result (crossChecks (GetSignature sc) vc e) of
        Val u \<Rightarrow> result (verifyEntries w p (GetSignature sc) vc post)
      | Err err \<Rightarrow> Err err | Panicked \<Rightarrow> Panicked)"
    by (simp add: Verify_loop [OF assms(1-4)] verifyEntries_append [OF assms(5)] io_simps
        result_andThen v)
  then show ?thesis
    by (simp add: result_crossChecks trace_crossChecks)
qed

lemmas ex_defs3 = ex_defs2 exBadAll_def exBadCert_def exLate_def

lemma ex_offline_entry:
  "verifyEntry exWorld (exOffline t) [1, 2, 3] exContent exEntry =
    ([EvValidateEntry exEntry, EvVerifySET exEntry, EvCompareKey ''certA'', EvValidAtTime 100],
     Val ())"
  by (simp add: run_simps ex_defs3)

theorem Verify_cross_checks_witness:
  "result (Verify exWorld (exOffline 1) (exEntity [exEntry, exBadAll, exEntry])) =
     Err (ErrorString ''transparency log signature does not match'') \<and>
   result (Verify exWorld (exOffline 1) (exEntity [exEntry, exBadCert, exEntry])) =
     Err (ErrorString ''transparency log certificate does not match'') \<and>
   result (Verify exWorld (exOffline 1) (exEntity [exEntry, exLate, exEntry])) =
     Err (ErrorString ''Integrated time outside certificate validity'')"
proof -
  have a: "TlogEntries (exEntity [exEntry, x, exEntry]) = Inr ([exEntry] @ x # [exEntry])"
    "\<not> int (length ([exEntry] @ x # [exEntry])) < threshold (exOffline 1)"
    "SignatureContent (exEntity [exEntry, x, exEntry]) = Inr \<lparr>GetSignature = [1, 2, 3]\<rparr>"
    "VerificationContent (exEntity [exEntry, x, exEntry]) = Inr exContent"
    "\<forall>y \<in> set [exEntry]. result (verifyEntry exWorld (exOffline 1)
        (GetSignature \<lparr>GetSignature = [1, 2, 3]\<rparr>) exContent y) = Val ()"
    "ValidateEntry exWorld x = None" for x
    by (simp_all add: ex_simps ex_offline_entry io_simps) (simp add: exWorld_def)
  have b: "result (strategyCheck exWorld (exOffline 1) exBadAll) = Val ()"
    "result (strategyCheck exWorld (exOffline 1) exBadCert) = Val ()"
    "result (strategyCheck exWorld (exOffline 1) exLate) = Val ()"
    by (simp_all add: run_simps ex_defs3)
  have c: "Signature exBadAll \<noteq> [1, 2, 3]"
    "Signature exBadCert = [1, 2, 3]" "\<not> CompareKey exContent (Certificate exBadCert)"
    "Signature exLate = [1, 2, 3]" "CompareKey exContent (Certificate exLate)"
    "\<not> ValidAtTime exContent (IntegratedTime exLate)"
    by (simp_all add: ex_defs3)
  from Verify_cross_checks [OF a b(1)] Verify_cross_checks [OF a b(2)]
    Verify_cross_checks [OF a b(3)] c
  show ?thesis by simp
qed

section \<open>The number of records\<close>

lemmas ex_defs4 = ex_defs3 exSilent_def exNilIndex_def exNilKey_def exUnlisted_def




section \<open>The loop against the specification\<close>

lemma outcomeOf_simps:
  "outcomeOf None = Val ()" "outcomeOf (Some (k, err)) = Err err"
  "outcomeOf f \<noteq> Panicked" "(outcomeOf f = Val ()) = (f = None)"
  "outcomeOf (map_option (Pair k) r) = (case r of None \<Rightarrow> Val () | Some err \<Rightarrow> Err err)"
  by (auto simp add: outcomeOf_def split: option.splits)

lemma getRekorClient_resolve:
  "result (getRekorClient w url) =
     (case spec_resolve w url of Inl failure \<Rightarrow> Err (snd failure) | Inr found \<Rightarrow> Val found)"
  by (simp add: getRekorClient_def spec_resolve_def result_andThen io_simps
      split: sum.split option.split)

lemma verifyLogEntries_remote:
  "result (verifyLogEntries w key remote) = outcomeOf (spec_verifyRemote w key remote)"
proof (induction remote)
  case Nil
  show ?case by (simp add: spec_verifyRemote_def io_simps outcomeOf_simps)
next
  case (Cons kv remote)
  then show ?case
    by (cases "VerifyLogEntry w (snd kv) key")
      (simp_all add: spec_verifyRemote_def result_andThen io_simps outcomeOf_simps)
qed

lemma onlineCheck_refines:
  assumes "result (onlineCheck w p e) \<noteq> Panicked"
  shows "result (onlineCheck w p e) = outcomeOf (spec_onlineCheck w p e)"
proof (cases "LogKeyID e")
  case None
  with assms show ?thesis by (simp add: onlineCheck_def io_simps)
next
  case (Some keyID)
  then have k: "keyIdOf e = keyID" by (simp add: keyIdOf_def)
  show ?thesis
  proof (cases "tlogVerifiers p (hex_EncodeToString (bytes_of keyID))")
    case None
    with Some k show ?thesis
      by (simp add: onlineCheck_def spec_onlineCheck_def io_simps outcomeOf_simps)
  next
    case outer: (Some ptr)
    show ?thesis
    proof (cases ptr)
      case None
      with Some outer assms show ?thesis by (simp add: onlineCheck_def io_simps)
    next
      case inner: (Some known)
      show ?thesis
      proof (cases "spec_resolve w (BaseURL known)")
        case (Inl failure)
        with Some k outer inner show ?thesis
          by (cases failure)
            (simp add: onlineCheck_def spec_onlineCheck_def result_andThen
              getRekorClient_resolve outcomeOf_simps)
      next
        case (Inr found)
        obtain handle key where f: "found = (handle, key)" by (cases found)
        with Inr have r: "result (getRekorClient w (BaseURL known)) = Val (handle, key)"
          by (simp add: getRekorClient_resolve)
        show ?thesis
        proof (cases "SearchLogQuery w handle [LogIndex e]")
          case (Inl err)
          with Some k outer inner Inr f r show ?thesis
            by (simp add: onlineCheck_def spec_onlineCheck_def result_andThen Let_def io_simps
                outcomeOf_simps)
        next
          case q: (Inr payload)
          have o: "result (onlineCheck w p e) =
              result (if length payload = 0 then
                (case LogIndex e of
                   None \<Rightarrow> panic
                 | Some i \<Rightarrow> fail (ErrorString (''unable to locate log entry '' @ show_int i)))
              else if length payload > 1 then fail (ErrorString ''too many log entries returned'')
              else verifyLogEntries w key (payload ! 0))"
            by (simp add: onlineCheck_query [OF Some _ r q] outer inner io_simps)
          show ?thesis
          proof (cases payload)
            case Nil
            with o assms obtain i where i: "LogIndex e = Some i"
              by (cases "LogIndex e") (simp_all add: io_simps)
            with Nil o Some k outer inner Inr f q show ?thesis
              by (simp add: spec_onlineCheck_def logIndexOf_def io_simps outcomeOf_simps)
          next
            case (Cons first others)
            with o Some k outer inner Inr f q show ?thesis
              by (cases others)
                (simp_all add: spec_onlineCheck_def io_simps outcomeOf_simps
                  verifyLogEntries_remote)
          qed
        qed
      qed
    qed
  qed
qed

lemma onlineCheck_no_panic:
  assumes "pointersSet p e"
  shows "result (onlineCheck w p e) \<noteq> Panicked"
proof -
  from assms obtain keyID i where h: "LogKeyID e = Some keyID" "LogIndex e = Some i"
    "tlogVerifiers p (hex_EncodeToString (bytes_of keyID)) \<noteq> Some None"
    by (auto simp add: pointersSet_def keyIdOf_def)
  then show ?thesis
    by (auto simp add: onlineCheck_def Let_def result_andThen io_simps getRekorClient_resolve
        verifyLogEntries_remote outcomeOf_simps split: option.splits res.splits sum.splits)
qed

lemma strategyCheck_refines:
  assumes "result (strategyCheck w p e) \<noteq> Panicked"
  shows "result (strategyCheck w p e) = outcomeOf (spec_strategyCheck w p e)"
proof (cases "online p")
  case True
  with assms have "result (onlineCheck w p e) \<noteq> Panicked"
    by (simp add: strategyCheck_def)
  from onlineCheck_refines [OF this] True show ?thesis
    by (simp add: strategyCheck_def spec_strategyCheck_def)
next
  case False
  then show ?thesis
    by (simp add: strategyCheck_def spec_strategyCheck_def spec_offlineCheck_def io_simps
        outcomeOf_simps)
qed

lemma strategyCheck_no_panic:
  assumes "online p \<longrightarrow> pointersSet p e"
  shows "result (strategyCheck w p e) \<noteq> Panicked"
  using assms
  by (cases "online p")
    (auto simp add: strategyCheck_def onlineCheck_no_panic io_simps split: option.splits)

lemma spec_firstFailure_None:
  "(spec_firstFailure cs = None) = list_all (\<lambda>r. r = None) cs"
  by (induction cs rule: spec_firstFailure.induct) auto

lemma verifyEntry_refines:
  assumes "result (verifyEntry w p s vc e) \<noteq> Panicked"
  shows "result (verifyEntry w p s vc e) = outcomeOf (spec_firstFailure (spec_entryChecks w p s vc e))"
proof (cases "ValidateEntry w e")
  case (Some err)
  then show ?thesis
    by (simp add: verifyEntry_def spec_entryChecks_def spec_structuralCheck_def result_andThen
        io_simps outcomeOf_simps)
next
  case None
  with assms have n: "result (strategyCheck w p e) \<noteq> Panicked"
    by (auto simp add: verifyEntry_def result_andThen io_simps split: res.splits)
  show ?thesis
  proof (cases "spec_strategyCheck w p e")
    case inner: None
    with None strategyCheck_refines [OF n] show ?thesis
      by (simp add: verifyEntry_def spec_entryChecks_def spec_structuralCheck_def
          spec_signatureCheck_def spec_certificateCheck_def spec_timeCheck_def result_andThen
          result_crossChecks io_simps outcomeOf_simps)
  next
    case inner: (Some failure)
    with None strategyCheck_refines [OF n] show ?thesis
      by (cases failure)
        (simp add: verifyEntry_def spec_entryChecks_def spec_structuralCheck_def result_andThen
          io_simps outcomeOf_simps)
  qed
qed

lemma verifyEntry_no_panic:
  assumes "online p \<longrightarrow> pointersSet p e"
  shows "result (verifyEntry w p s vc e) \<noteq> Panicked"
  using strategyCheck_no_panic [OF assms, of w]
  by (auto simp add: verifyEntry_def result_andThen result_crossChecks io_simps
      split: res.splits option.splits)

lemma verifyEntry_spec_passes:
  assumes "result (verifyEntry w p s vc e) \<noteq> Panicked"
  shows "(result (verifyEntry w p s vc e) = Val ()) = spec_passes w p s vc e"
  by (simp add: verifyEntry_refines [OF assms] outcomeOf_simps spec_firstFailure_None
      spec_passes_def)

lemma verifyEntries_refines:
  assumes "result (verifyEntries w p s vc es) \<noteq> Panicked"
  shows "result (verifyEntries w p s vc es) = outcomeOf (spec_verdict w p s vc es)"
  using assms
proof (induction es)
  case Nil
  show ?case by (simp add: spec_verdict_def io_simps outcomeOf_simps)
next
  case (Cons x es)
  show ?case
  proof (cases "result (verifyEntry w p s vc x)")
    case (Val u)
    then have "spec_passes w p s vc x"
      using verifyEntry_spec_passes [of w p s vc x] by simp
    moreover from Val Cons.prems have "result (verifyEntries w p s vc es) \<noteq> Panicked"
      by (simp add: result_andThen)
    ultimately show ?thesis
      using Val Cons.IH by (simp add: result_andThen spec_verdict_def)
  next
    case (Err err)
    then have "\<not> spec_passes w p s vc x"
      using verifyEntry_spec_passes [of w p s vc x] by simp
    moreover from Err verifyEntry_refines [of w p s vc x]
    have "outcomeOf (spec_firstFailure (spec_entryChecks w p s vc x)) = Err err"
      by simp
    ultimately show ?thesis
      using Err by (simp add: result_andThen spec_verdict_def)
  next
    case Panicked
    with Cons.prems show ?thesis by (simp add: result_andThen)
  qed
qed

lemma verifyEntries_no_panic:
  assumes "\<forall>e \<in> set es. result (verifyEntry w p s vc e) \<noteq> Panicked"
  shows "result (verifyEntries w p s vc es) \<noteq> Panicked"
  using assms by (induction es) (auto simp add: result_andThen io_simps split: res.splits)

lemmas spec_defs = spec_outcome_def spec_verdict_def spec_passes_def spec_entryChecks_def
  spec_structuralCheck_def spec_strategyCheck_def spec_offlineCheck_def spec_onlineCheck_def
  spec_resolve_def spec_verifyRemote_def spec_signatureCheck_def spec_certificateCheck_def
  spec_timeCheck_def keyIdOf_def logIndexOf_def pointersSet_def

text \<open>
  C2, as the specification states it, fails in two ways. An entity can pass the threshold
  gate and still have no signature content: with a threshold of 0, no entries and a
  signature content that does not parse, every entry passes every check, and \<^verbatim>\<open>Verify\<close>
  returns the parse error. And a failure need not be an error: online, an entry without
  key identifier that passes the structural validation ends the run in a panic.
\<close>

theorem Verify_first_failure_counterexample:
  "TlogEntries exBroken = Inr [] \<and>
   \<not> int (length ([] :: Entry list)) < threshold (exOffline 0) \<and>
   Verify exWorld (exOffline 0) exBroken =
     ([EvTlogEntries, EvSignatureContent], Err (OtherError 7)) \<and>
   Verify exWorld (exOnline 1) (exEntity [exNilKey]) =
     ([EvTlogEntries, EvSignatureContent, EvVerificationContent, EvValidateEntry exNilKey],
      Panicked)"
  by (simp add: run_simps ex_defs4 exBroken_def)

text \<open>
  C2, amended. For an entity that passes the threshold gate, whose signature content and
  verification content parse and, online, whose entries have their pointers set,
  \<^verbatim>\<open>Verify\<close> succeeds exactly when every entry passes all five checks of the
  specification; otherwise it returns the error of the first failing check of the first
  entry, in the order of the entity, that does not pass. There is no third result.
\<close>

theorem Verify_first_failure:
  assumes "TlogEntries entity = Inr es" and "\<not> int (length es) < threshold p"
    and "SignatureContent entity = Inr sc" and "VerificationContent entity = Inr vc"
    and "online p \<longrightarrow> list_all (pointersSet p) es"
  shows "(result (Verify w p entity) = Val ()) = list_all (spec_passes w p (GetSignature sc) vc) es
    \<and> result (Verify w p entity) =
        (case spec_verdict w p (GetSignature sc) vc es of
           None \<Rightarrow> Val ()
         | Some (k, err) \<Rightarrow> Err err)"
proof -
  have n: "result (verifyEntry w p (GetSignature sc) vc e) \<noteq> Panicked" if "e \<in> set es" for e
    using that assms(5) by (intro verifyEntry_no_panic) (auto simp add: list_all_iff)
  then have "result (verifyEntries w p (GetSignature sc) vc es) \<noteq> Panicked"
    by (intro verifyEntries_no_panic) simp
  from verifyEntries_refines [OF this]
  have "result (verifyEntries w p (GetSignature sc) vc es) =
      (case spec_verdict w p (GetSignature sc) vc es of
         None \<Rightarrow> Val ()
       | Some (k, err) \<Rightarrow> Err err)"
    by (simp add: outcomeOf_def)
  moreover have "(result (verifyEntries w p (GetSignature sc) vc es) = Val ()) =
      list_all (spec_passes w p (GetSignature sc) vc) es"
    using n by (simp add: verifyEntries_success verifyEntry_spec_passes list_all_iff)
  moreover have "result (Verify w p entity) = result (verifyEntries w p (GetSignature sc) vc es)"
    by (simp add: Verify_loop [OF assms(1-4)] io_simps)
  ultimately show ?thesis by simp
qed

theorem Verify_first_failure_witness:
  "result (Verify exWorld (exOffline 2) (exEntity [exEntry, exBadCert, exBadAll])) =
     Err (ErrorString ''transparency log certificate does not match'') \<and>
   spec_verdict exWorld (exOffline 2) [1, 2, 3] exContent [exEntry, exBadCert, exBadAll] =
     Some (CertificateMismatch, ErrorString ''transparency log certificate does not match'') \<and>
   result (Verify exWorld (exOnline 1) (exEntity [exEntry, exNoRecord])) =
     Err (ErrorString ''unable to locate log entry 9'') \<and>
   spec_verdict exWorld (exOnline 1) [1, 2, 3] exContent [exEntry, exNoRecord] =
     Some (LogEntryNotFound, ErrorString ''unable to locate log entry 9'')"
proof -
  have a: "TlogEntries (exEntity es) = Inr es"
    "SignatureContent (exEntity es) = Inr \<lparr>GetSignature = [1, 2, 3]\<rparr>"
    "VerificationContent (exEntity es) = Inr exContent" for es
    by (simp_all add: ex_simps)
  have b: "\<not> int (length [exEntry, exBadCert, exBadAll]) < threshold (exOffline 2)"
    "\<not> int (length [exEntry, exNoRecord]) < threshold (exOnline 1)"
    "online (exOffline 2) \<longrightarrow> list_all (pointersSet (exOffline 2)) [exEntry, exBadCert, exBadAll]"
    by (simp_all add: ex_simps)
  have c: "online (exOnline 1) \<longrightarrow> list_all (pointersSet (exOnline 1)) [exEntry, exNoRecord]"
    by (simp add: pointersSet_def keyIdOf_def ex_defs4 bytes_of_def hextable_def)
  have d: "spec_verdict exWorld (exOffline 2) [1, 2, 3] exContent [exEntry, exBadCert, exBadAll] =
     Some (CertificateMismatch, ErrorString ''transparency log certificate does not match'')"
    by (simp add: spec_defs ex_defs4 bytes_of_def hextable_def)
  have e: "spec_verdict exWorld (exOnline 1) [1, 2, 3] exContent [exEntry, exNoRecord] =
     Some (LogEntryNotFound, ErrorString ''unable to locate log entry 9'')"
    by (simp add: spec_defs ex_defs4 bytes_of_def hextable_def show_int_def show_nat_digit
        digit_def)
  from Verify_first_failure [OF a(1) b(1) a(2) a(3) b(3), of exWorld]
    Verify_first_failure [OF a(1) b(2) a(2) a(3) c, of exWorld] d e
  show ?thesis by simp
qed

section \<open>What an error tells\<close>

lemma checkOf_findings:
  "checkOf (ErrorString (''not enough transparency log entries: '' @ x)) = Some InsufficientEvidence"
  "checkOf (ErrorString (''unable to find tlog information for key '' @ h)) = Some UnknownLogIdentifier"
  "checkOf (ErrorString (''unable to locate log entry '' @ d)) = Some LogEntryNotFound"
  "checkOf (ErrorString ''too many log entries returned'') = Some AmbiguousLogEntry"
  "checkOf (ErrorString ''transparency log signature does not match'') = Some SignatureMismatch"
  "checkOf (ErrorString ''transparency log certificate does not match'') = Some CertificateMismatch"
  "checkOf (ErrorString ''Integrated time outside certificate validity'') = Some TimeOutOfRange"
  by (simp_all add: checkOf_def startsWith_def)

lemmas checkOf_norm = checkOf_findings [simplified]

lemma labelled_simps:
  "labelled None" "\<not> decidedByVerify k \<Longrightarrow> labelled (Some (k, err))"
  "checkOf err = Some k \<Longrightarrow> labelled (Some (k, err))"
  by (simp_all add: labelled_def)

lemma labelled_structuralCheck: "labelled (spec_structuralCheck w e)"
  by (cases "ValidateEntry w e")
    (simp_all add: spec_structuralCheck_def labelled_def decidedByVerify_def)

lemma labelled_offlineCheck: "labelled (spec_offlineCheck w p e)"
  by (cases "VerifySET w e (TlogVerifiers (trustedRoot p))")
    (simp_all add: spec_offlineCheck_def labelled_def decidedByVerify_def)

lemma labelled_verifyRemote: "labelled (spec_verifyRemote w key remote)"
  by (auto simp add: spec_verifyRemote_def labelled_def decidedByVerify_def split: option.splits)

lemma labelled_resolve: "spec_resolve w url = Inl failure \<Longrightarrow> labelled (Some failure)"
  by (auto simp add: spec_resolve_def labelled_def decidedByVerify_def
      split: sum.splits option.splits)

lemma labelled_onlineCheck: "labelled (spec_onlineCheck w p e)"
proof (cases "tlogVerifiers p (hex_EncodeToString (bytes_of (keyIdOf e)))")
  case None
  then show ?thesis
    by (simp add: spec_onlineCheck_def labelled_def checkOf_findings checkOf_norm)
next
  case outer: (Some ptr)
  show ?thesis
  proof (cases ptr)
    case None
    with outer show ?thesis
      by (simp add: spec_onlineCheck_def labelled_def checkOf_findings checkOf_norm)
  next
    case inner: (Some known)
    show ?thesis
    proof (cases "spec_resolve w (BaseURL known)")
      case (Inl failure)
      with outer inner labelled_resolve [OF Inl] show ?thesis
        by (simp add: spec_onlineCheck_def)
    next
      case (Inr found)
      obtain handle key where f: "found = (handle, key)" by (cases found)
      show ?thesis
      proof (cases "SearchLogQuery w handle [LogIndex e]")
        case (Inl err)
        with outer inner Inr f show ?thesis
          by (simp add: spec_onlineCheck_def labelled_def decidedByVerify_def)
      next
        case q: (Inr payload)
        with outer inner Inr f show ?thesis
          by (simp add: spec_onlineCheck_def labelled_verifyRemote)
            (simp add: labelled_def checkOf_findings checkOf_norm)
      qed
    qed
  qed
qed

lemma labelled_strategyCheck: "labelled (spec_strategyCheck w p e)"
  by (simp add: spec_strategyCheck_def labelled_onlineCheck labelled_offlineCheck)

lemma labelled_crossChecks:
  "labelled (spec_signatureCheck s e)" "labelled (spec_certificateCheck vc e)"
  "labelled (spec_timeCheck vc e)"
  by (simp_all add: spec_signatureCheck_def spec_certificateCheck_def spec_timeCheck_def
      labelled_def checkOf_findings checkOf_norm)

lemma labelled_firstFailure: "list_all labelled cs \<Longrightarrow> labelled (spec_firstFailure cs)"
  by (induction cs rule: spec_firstFailure.induct) (simp_all add: labelled_simps)

lemma labelled_verdict: "labelled (spec_verdict w p s vc es)"
  by (simp add: spec_verdict_def spec_entryChecks_def labelled_firstFailure
      labelled_structuralCheck labelled_strategyCheck labelled_crossChecks labelled_simps
      split: option.split)

lemma labelled_outcome: "labelled (spec_outcome w p entity)"
  by (simp add: spec_outcome_def labelled_verdict split: sum.split)
    (simp add: labelled_def decidedByVerify_def checkOf_findings checkOf_norm)

lemma spec_outcome_labelled:
  assumes "spec_outcome w p entity = Some (k, err)" and "decidedByVerify k"
  shows "checkOf err = Some k"
  using labelled_outcome [of w p entity] assms by (simp add: labelled_def)

lemma Verify_refines:
  assumes "result (Verify w p entity) \<noteq> Panicked"
  shows "result (Verify w p entity) = outcomeOf (spec_outcome w p entity)"
proof (cases "TlogEntries entity")
  case (Inl err)
  then show ?thesis
    by (simp add: Verify_def spec_outcome_def result_andThen io_simps outcomeOf_simps)
next
  case es: (Inr es)
  show ?thesis
  proof (cases "int (length es) < threshold p")
    case True
    with es show ?thesis
      by (simp add: Verify_def spec_outcome_def result_andThen io_simps outcomeOf_simps
          notEnough_def)
  next
    case False
    show ?thesis
    proof (cases "SignatureContent entity")
      case (Inl err)
      with es False show ?thesis
        by (simp add: Verify_def spec_outcome_def result_andThen io_simps outcomeOf_simps)
    next
      case sc: (Inr sc)
      show ?thesis
      proof (cases "VerificationContent entity")
        case (Inl err)
        with es False sc show ?thesis
          by (simp add: Verify_def spec_outcome_def result_andThen io_simps outcomeOf_simps)
      next
        case vc: (Inr vc)
        from assms have "result (verifyEntries w p (GetSignature sc) vc es) \<noteq> Panicked"
          by (simp add: Verify_loop [OF es False sc vc] io_simps)
        from verifyEntries_refines [OF this] es False sc vc show ?thesis
          by (simp add: Verify_loop [OF es False sc vc] io_simps spec_outcome_def)
      qed
    qed
  qed
qed

text \<open>
  C7, as the specification states it, fails: an error of \<^verbatim>\<open>Verify\<close> does not tell
  which entry failed. The same entity with its failing entry first, or second after an entry
  that passes, gets the same error value, a bare message.
\<close>

theorem error_without_position_counterexample:
  "result (Verify exWorld (exOffline 1) (exEntity [exBadSig, exEntry])) =
     Err (ErrorString ''transparency log signature does not match'') \<and>
   result (Verify exWorld (exOffline 1) (exEntity [exEntry, exBadSig])) =
     Err (ErrorString ''transparency log signature does not match'') \<and>
   result (verifyEntry exWorld (exOffline 1) [1, 2, 3] exContent exEntry) = Val ()"
proof -
  have a: "result (Verify exWorld (exOffline 1) (exEntity [exBadSig, exEntry])) =
     Err (ErrorString ''transparency log signature does not match'')"
    by (simp add: run_simps ex_defs3)
  have b: "result (Verify exWorld (exOffline 1) (exEntity [exEntry, exBadSig])) =
     Err (ErrorString ''transparency log signature does not match'')"
    by (simp add: run_simps ex_defs3)
  have c: "result (verifyEntry exWorld (exOffline 1) [1, 2, 3] exContent exEntry) = Val ()"
    by (simp add: ex_offline_entry io_simps)
  show ?thesis
    by (simp only: a b c)
qed

text \<open>
  C7, amended. An error that \<^verbatim>\<open>Verify\<close> returns is the error of the first check that
  fails, in the order: extraction of the entries, threshold, signature content, verification
  content, then for each entry the five checks. For the seven kinds of failure that the verifier
  decides itself (InsufficientEvidence, UnknownLogIdentifier, LogEntryNotFound,
  AmbiguousLogEntry, SignatureMismatch, CertificateMismatch, TimeOutOfRange) it is a bare
  message from which the kind is recognised; for the other kinds it is the collaborator's
  error, unchanged (for a public key that does not decode, a fixed message), and tells the
  kind only as far as that error does. The error does not depend on the position of the
  failing entry: with the first failing entry placed behind any other passing entries, the
  result is the same.
\<close>

theorem Verify_error_kind:
  "(result (Verify w p entity) = Err err \<longrightarrow>
      (\<exists>k. spec_outcome w p entity = Some (k, err) \<and>
           (decidedByVerify k \<longrightarrow> checkOf err = Some k)))
   \<and> (TlogEntries entity = Inr (pre @ e # post) \<and>
      \<not> int (length (pre @ e # post)) < threshold p \<and>
      \<not> int (length (pre' @ e # post')) < threshold p \<and>
      SignatureContent entity = Inr sc \<and> VerificationContent entity = Inr vc \<and>
      (\<forall>x \<in> set pre. result (verifyEntry w p (GetSignature sc) vc x) = Val ()) \<and>
      (\<forall>x \<in> set pre'. result (verifyEntry w p (GetSignature sc) vc x) = Val ()) \<and>
      result (verifyEntry w p (GetSignature sc) vc e) \<noteq> Val ()
      \<longrightarrow> result (Verify w p (entity\<lparr>TlogEntries := Inr (pre' @ e # post')\<rparr>)) =
          result (Verify w p entity))"
proof (intro conjI impI)
  assume a: "result (Verify w p entity) = Err err"
  then have "outcomeOf (spec_outcome w p entity) = Err err"
    using Verify_refines [of w p entity] by simp
  then obtain k where k: "spec_outcome w p entity = Some (k, err)"
    by (auto simp add: outcomeOf_def split: option.splits)
  with spec_outcome_labelled [OF k]
  show "\<exists>k. spec_outcome w p entity = Some (k, err) \<and>
           (decidedByVerify k \<longrightarrow> checkOf err = Some k)"
    by blast
next
  assume h: "TlogEntries entity = Inr (pre @ e # post) \<and>
      \<not> int (length (pre @ e # post)) < threshold p \<and>
      \<not> int (length (pre' @ e # post')) < threshold p \<and>
      SignatureContent entity = Inr sc \<and> VerificationContent entity = Inr vc \<and>
      (\<forall>x \<in> set pre. result (verifyEntry w p (GetSignature sc) vc x) = Val ()) \<and>
      (\<forall>x \<in> set pre'. result (verifyEntry w p (GetSignature sc) vc x) = Val ()) \<and>
      result (verifyEntry w p (GetSignature sc) vc e) \<noteq> Val ()"
  then have "result (Verify w p entity) = result (verifyEntry w p (GetSignature sc) vc e)"
    using Verify_stops_at [of entity pre e post p sc vc w] by (simp add: io_simps)
  moreover from h
  have "result (Verify w p (entity\<lparr>TlogEntries := Inr (pre' @ e # post')\<rparr>)) =
      result (verifyEntry w p (GetSignature sc) vc e)"
    using Verify_stops_at [of "entity\<lparr>TlogEntries := Inr (pre' @ e # post')\<rparr>" pre' e post' p sc vc w]
    by (simp add: io_simps)
  ultimately
  show "result (Verify w p (entity\<lparr>TlogEntries := Inr (pre' @ e # post')\<rparr>)) =
      result (Verify w p entity)"
    by simp
qed

theorem Verify_error_kind_witness:
  "result (Verify exWorld (exOnline 1) (exEntity [exEntry, exTwoRecords])) =
     Err (ErrorString ''too many log entries returned'') \<and>
   spec_outcome exWorld (exOnline 1) (exEntity [exEntry, exTwoRecords]) =
     Some (AmbiguousLogEntry, ErrorString ''too many log entries returned'') \<and>
   checkOf (ErrorString ''too many log entries returned'') = Some AmbiguousLogEntry \<and>
   result (Verify exWorld (exOnline 1)
     ((exEntity [exEntry, exTwoRecords])\<lparr>TlogEntries := Inr [exTwoRecords]\<rparr>)) =
     Err (ErrorString ''too many log entries returned'')"
proof -
  have a: "result (Verify exWorld (exOnline 1) (exEntity [exEntry, exTwoRecords])) =
     Err (ErrorString ''too many log entries returned'')"
    by (simp add: run_simps ex_defs4)
  have b: "spec_outcome exWorld (exOnline 1) (exEntity [exEntry, exTwoRecords]) =
     Some (AmbiguousLogEntry, ErrorString ''too many log entries returned'')"
    by (simp add: spec_defs ex_defs4 bytes_of_def hextable_def)
  have c: "decidedByVerify AmbiguousLogEntry"
    by (simp add: decidedByVerify_def)
  have d: "TlogEntries (exEntity [exEntry, exTwoRecords]) = Inr ([exEntry] @ exTwoRecords # [])"
    "\<not> int (length ([exEntry] @ exTwoRecords # [])) < threshold (exOnline 1)"
    "\<not> int (length ([] @ exTwoRecords # [])) < threshold (exOnline 1)"
    "SignatureContent (exEntity [exEntry, exTwoRecords]) = Inr \<lparr>GetSignature = [1, 2, 3]\<rparr>"
    "VerificationContent (exEntity [exEntry, exTwoRecords]) = Inr exContent"
    by (simp_all add: ex_simps)
  have e: "result (verifyEntry exWorld (exOnline 1) [1, 2, 3] exContent exEntry) = Val ()"
    by (simp add: ex_online_entry io_simps)
  have f: "result (verifyEntry exWorld (exOnline 1) [1, 2, 3] exContent exTwoRecords) \<noteq> Val ()"
    by (simp add: run_simps ex_defs4)
  from Verify_error_kind [of exWorld "exOnline 1" "exEntity [exEntry, exTwoRecords]"
      "ErrorString ''too many log entries returned''" "[exEntry]" exTwoRecords "[]" "[]" "[]"
      "\<lparr>GetSignature = [1, 2, 3]\<rparr>" exContent] a b c d e f
  show ?thesis by simp
qed

end
